theory Spec2Isabelle
  imports Main "HOL-Library.Word" "HOL-Library.Sublist"
begin

section \<open>Data model\<close>

text \<open>
  Go strings are byte strings: \<open>string\<close>. \<open>int64\<close> values (object generations and
  \<open>time.Duration\<close>, a count of nanoseconds) are 64-bit words. A Go \<open>error\<close> is either
  absent (\<open>nil\<close>, here \<open>None\<close>) or a value carrying its \<open>Error()\<close> text; the only
  property of an error the controller ever inspects besides that text is whether the API
  server reported the object as not found (\<open>client.IgnoreNotFound\<close>).
\<close>

type_synonym Duration = "64 word"

definition Second :: Duration where
  "Second = 1000000000"

datatype error = NotFound string | Errorf string

fun Error :: "error \<Rightarrow> string" where
  "Error (NotFound m) = m"
| "Error (Errorf m) = m"

fun IgnoreNotFound :: "error \<Rightarrow> error option" where
  "IgnoreNotFound (NotFound m) = None"
| "IgnoreNotFound (Errorf m) = Some (Errorf m)"

text \<open>
  \<open>context.WithTimeout(parent, d)\<close> derives a context from its parent; the controller
  only ever builds contexts, hands them on, and cancels them, so a context is the term that
  built it.
\<close>

datatype Context = Background | WithTimeout Context Duration

text \<open>
  Object metadata (\<open>metav1.ObjectMeta\<close>, embedded in every API object). A Go map is a
  partial function; looking a key up in a \<open>nil\<close> map finds nothing, as in the empty map.
\<close>

record ObjectMeta =
  Name :: string
  Namespace :: string
  Generation :: "64 word"
  Annotations :: "string \<rightharpoonup> string"

type_synonym NamespacedName = "string \<times> string"

datatype Readiness = Ready | NotReady

record Condition =
  Status :: Readiness
  Reason :: string
  Message :: string

record KustomizationSpec =
  GitRepositoryRef_Name :: string
  Path :: string
  Prune :: string
  Interval :: Duration

record Kustomization = ObjectMeta +
  Spec :: KustomizationSpec
  Conditions :: "Condition list"

record Artifact =
  URL :: string

record GitRepository = ObjectMeta +
  Status_Artifact :: "Artifact option"

section \<open>The change predicate (\<open>controllers/kustomization_predicate.go\<close>)\<close>

text \<open>
  An update event carries the metadata of the old and of the new object; either may be
  \<open>nil\<close>. The annotation key \<open>kustomizev1.SyncAtAnnotation\<close> is declared in the API
  package; \<open>Update\<close> takes it as its first argument.
\<close>

record UpdateEvent =
  MetaOld :: "ObjectMeta option"
  MetaNew :: "ObjectMeta option"

definition Update :: "string \<Rightarrow> UpdateEvent \<Rightarrow> bool" where
  "Update SyncAtAnnotation e =
     (case MetaOld e of
        None \<Rightarrow> False
      | Some old \<Rightarrow>
          (case MetaNew e of
             None \<Rightarrow> False
           | Some new \<Rightarrow>
               if Generation new \<noteq> Generation old then True
               else
                 (case Annotations new SyncAtAnnotation of
                    Some val \<Rightarrow>
                      (case Annotations old SyncAtAnnotation of
                         Some valOld \<Rightarrow> if val \<noteq> valOld then True else False
                       | None \<Rightarrow> True)
                  | None \<Rightarrow> False)))"

section \<open>The reconciler (\<open>controllers/kustomization_controller.go\<close>)\<close>

subsection \<open>Declarations of the API packages\<close>

text \<open>
  The condition reasons are string constants of the API packages
  (\<open>kustomizev1.ArtifactFailedReason\<close>, \<open>kustomizev1.BuildFailedReason\<close>,
  \<open>kustomizev1.ApplyFailedReason\<close>, \<open>kustomizev1.ApplySucceedReason\<close>,
  \<open>sourcev1.StorageOperationFailedReason\<close>). Their values are not fixed here: the
  reconciler takes them as a parameter.
\<close>

record api =
  ArtifactFailedReason :: string
  BuildFailedReason :: string
  ApplyFailedReason :: string
  ApplySucceedReason :: string
  StorageOperationFailedReason :: string

text \<open>
  Modelled from the spec: the helpers \<open>kustomizev1.KustomizationReady\<close> and
  \<open>kustomizev1.KustomizationNotReady\<close> of the API package, which the reconciler calls to
  build the object it returns. The status of the desired state is a condition, Ready or
  NotReady, with a reason and a message; the helper returns the object it was given with that
  condition as its status.
\<close>

definition KustomizationReady :: "Kustomization \<Rightarrow> string \<Rightarrow> string \<Rightarrow> Kustomization" where
  "KustomizationReady kustomization reason message =
     kustomization\<lparr>Conditions := [\<lparr>Status = Ready, Reason = reason, Message = message\<rparr>]\<rparr>"

definition KustomizationNotReady :: "Kustomization \<Rightarrow> string \<Rightarrow> string \<Rightarrow> Kustomization" where
  "KustomizationNotReady kustomization reason message =
     kustomization\<lparr>Conditions := [\<lparr>Status = NotReady, Reason = reason, Message = message\<rparr>]\<rparr>"

subsection \<open>The world outside the reconciler\<close>

text \<open>
  The reconciler talks to the API server, the file system and external processes. Their
  answers are not the reconciler's to decide: each operation is a function of a world state
  \<open>'w\<close> that returns its answer and the next world state. An answer is any value of the
  result type, so an operation may fail at any call, also because the context's deadline
  passed while it ran. Every operation the reconciler performs is also recorded, in order,
  as an event.
\<close>

record 'w runtime =
  client_Get_Kustomization :: "Context \<Rightarrow> NamespacedName \<Rightarrow> 'w \<Rightarrow> (error + Kustomization) \<times> 'w"
  client_Get_GitRepository :: "Context \<Rightarrow> NamespacedName \<Rightarrow> 'w \<Rightarrow> (error + GitRepository) \<times> 'w"
  client_Status_Update :: "Context \<Rightarrow> Kustomization \<Rightarrow> 'w \<Rightarrow> error option \<times> 'w"
  ioutil_TempDir :: "string \<Rightarrow> string \<Rightarrow> 'w \<Rightarrow> (error + string) \<times> 'w"
  os_RemoveAll :: "string \<Rightarrow> 'w \<Rightarrow> error option \<times> 'w"
  exec_CombinedOutput :: "Context \<Rightarrow> string list \<Rightarrow> 'w \<Rightarrow> (string \<times> error option) \<times> 'w"

datatype event =
    GetKustomization Context NamespacedName
  | GetGitRepository Context NamespacedName
  | StatusUpdate Context Kustomization
  | TempDir string string
  | RemoveAll string
  | Command Context "string list"
  | Println string
  | LogError error string
  | LogInfo string
  | Cancel Context


fun is_TempDir :: "event \<Rightarrow> bool" where
  "is_TempDir (TempDir dir pattern) = True"
| "is_TempDir e = False"

fun is_StatusUpdate :: "event \<Rightarrow> bool" where
  "is_StatusUpdate (StatusUpdate ctx k) = True"
| "is_StatusUpdate e = False"

fun commands :: "event list \<Rightarrow> (Context \<times> string list) list" where
  "commands [] = []"
| "commands (Command ctx argv # es) = (ctx, argv) # commands es"
| "commands (e # es) = commands es"

subsection \<open>\<open>sync\<close>\<close>

text \<open>
  \<open>sync_workspace\<close> is the body of \<open>sync\<close> from the statement after
  \<open>defer os.RemoveAll(tmpDir)\<close> to the end: download and unpack the artifact, run
  \<open>kustomize build\<close>, run \<open>kubectl apply\<close>. Each command is a shell command line run
  under the context; a non-nil error of \<open>CombinedOutput\<close> ends the attempt.
\<close>

definition sync_workspace ::
  "api \<Rightarrow> 'w runtime \<Rightarrow> Context \<Rightarrow> Kustomization \<Rightarrow> string \<Rightarrow> string \<Rightarrow> 'w
   \<Rightarrow> (Kustomization \<times> error option) \<times> event list \<times> 'w" where
  "sync_workspace api rt ctx kustomization tmpDir url w =
     (let cmd = ''cd '' @ tmpDir @ '' && curl -sL '' @ url @ '' | tar -xz --strip-components=1 -C .'';
          ((output, err), w1) = exec_CombinedOutput rt ctx [''/bin/sh'', ''-c'', cmd] w
      in case err of
           Some e \<Rightarrow>
             (let err' = Errorf (''artifact acquisition failed: '' @ Error e)
              in ((KustomizationNotReady kustomization (ArtifactFailedReason api) (Error err'),
                   Some (Errorf (''artifact download `'' @ url @ ''` error: '' @ output))),
                  [Command ctx [''/bin/sh'', ''-c'', cmd]], w1))
         | None \<Rightarrow>
             (let buildDir = Path (Spec kustomization);
                  cmd2 = ''cd '' @ tmpDir @ '' && kustomize build '' @ buildDir @ '' > ''
                           @ Name kustomization @ ''.yaml'';
                  ((output2, err2), w2) = exec_CombinedOutput rt ctx [''/bin/sh'', ''-c'', cmd2] w1
              in case err2 of
                   Some e \<Rightarrow>
                     (let err' = Errorf (''kustomize build error: '' @ Error e)
                      in ((KustomizationNotReady kustomization (BuildFailedReason api) (Error err'),
                           Some (Errorf (''kustomize build error: '' @ output2))),
                          [Command ctx [''/bin/sh'', ''-c'', cmd],
                           Command ctx [''/bin/sh'', ''-c'', cmd2],
                           Println output2], w2))
                 | None \<Rightarrow>
                     (let cmd3 =
                            (if Prune (Spec kustomization) \<noteq> []
                             then ''cd '' @ tmpDir @ '' && kubectl apply -f '' @ Name kustomization
                                    @ ''.yaml --prune -l '' @ Prune (Spec kustomization)
                             else ''cd '' @ tmpDir @ '' && kubectl apply -f '' @ Name kustomization
                                    @ ''.yaml'');
                          ((output3, err3), w3) =
                            exec_CombinedOutput rt ctx [''/bin/sh'', ''-c'', cmd3] w2
                      in case err3 of
                           Some e \<Rightarrow>
                             (let err' = Errorf (''kubectl apply error: '' @ Error e)
                              in ((KustomizationNotReady kustomization (ApplyFailedReason api)
                                     (Error err'),
                                   Some (Errorf (''kubectl apply: '' @ output3))),
                                  [Command ctx [''/bin/sh'', ''-c'', cmd],
                                   Command ctx [''/bin/sh'', ''-c'', cmd2],
                                   Command ctx [''/bin/sh'', ''-c'', cmd3]], w3))
                         | None \<Rightarrow>
                             ((KustomizationReady kustomization (ApplySucceedReason api)
                                 ''kustomization was successfully applied'',
                               None),
                              [Command ctx [''/bin/sh'', ''-c'', cmd],
                               Command ctx [''/bin/sh'', ''-c'', cmd2],
                               Command ctx [''/bin/sh'', ''-c'', cmd3],
                               Println output3], w3))))"

text \<open>
  \<open>sync\<close> itself: the artifact check, the temporary directory, and the deferred
  \<open>os.RemoveAll\<close>, which runs when the rest of the body returns, on whichever path; the
  error \<open>os.RemoveAll\<close> returns is dropped, as a deferred call's results are.
\<close>

definition artifact_not_found ::
  "api \<Rightarrow> Kustomization \<Rightarrow> GitRepository \<Rightarrow> 'w
   \<Rightarrow> (Kustomization \<times> error option) \<times> event list \<times> 'w" where
  "artifact_not_found api kustomization repository w =
     (let err = Errorf (''artifact not found in '' @ Name repository)
      in ((KustomizationNotReady kustomization (ArtifactFailedReason api) (Error err), Some err),
          [], w))"

definition sync ::
  "api \<Rightarrow> 'w runtime \<Rightarrow> Context \<Rightarrow> Kustomization \<Rightarrow> GitRepository \<Rightarrow> 'w
   \<Rightarrow> (Kustomization \<times> error option) \<times> event list \<times> 'w" where
  "sync api rt ctx kustomization repository w =
     (case Status_Artifact repository of
        None \<Rightarrow> artifact_not_found api kustomization repository w
      | Some artifact \<Rightarrow>
          if URL artifact = [] then artifact_not_found api kustomization repository w
          else
            (case ioutil_TempDir rt [] (Name repository) w of
               (Inl e, w1) \<Rightarrow>
                 (let err = Errorf (''tmp dir error: '' @ Error e)
                  in ((KustomizationNotReady kustomization (StorageOperationFailedReason api)
                         (Error err),
                       Some err),
                      [TempDir [] (Name repository)], w1))
             | (Inr tmpDir, w1) \<Rightarrow>
                 (let (result, events, w2) =
                        sync_workspace api rt ctx kustomization tmpDir (URL artifact) w1;
                      (removed, w3) = os_RemoveAll rt tmpDir w2
                  in (result, TempDir [] (Name repository) # events @ [RemoveAll tmpDir], w3))))"

subsection \<open>\<open>Reconcile\<close>\<close>

record Result =
  Requeue :: bool
  RequeueAfter :: Duration

text \<open>
  \<open>Reconcile_body\<close> is \<open>Reconcile\<close> after its first two statements, which create the
  context and defer its cancellation. The loggers' key/value pairs are left out of the
  events; the message and the error logged are kept.
\<close>

definition Reconcile_body ::
  "api \<Rightarrow> 'w runtime \<Rightarrow> Context \<Rightarrow> NamespacedName \<Rightarrow> 'w
   \<Rightarrow> (Result \<times> error option) \<times> event list \<times> 'w" where
  "Reconcile_body api rt ctx req w =
     (case client_Get_Kustomization rt ctx req w of
        (Inl err, w1) \<Rightarrow>
          ((\<lparr>Requeue = False, RequeueAfter = 0\<rparr>, IgnoreNotFound err),
           [GetKustomization ctx req], w1)
      | (Inr kustomization, w1) \<Rightarrow>
          (let repositoryName =
                 (Namespace kustomization, GitRepositoryRef_Name (Spec kustomization))
           in case client_Get_GitRepository rt ctx repositoryName w1 of
                (Inl err, w2) \<Rightarrow>
                  ((\<lparr>Requeue = True, RequeueAfter = 0\<rparr>, Some err),
                   [GetKustomization ctx req, GetGitRepository ctx repositoryName,
                    LogError err ''GitRepository not found''], w2)
              | (Inr repository, w2) \<Rightarrow>
                  (let ((syncedKustomization, err), events, w3) =
                         sync api rt ctx kustomization repository w2;
                       logged =
                         (case err of
                            Some e \<Rightarrow> [LogError e ''Kustomization sync failed'']
                          | None \<Rightarrow> []);
                       before = [GetKustomization ctx req, GetGitRepository ctx repositoryName]
                                  @ events @ logged @ [StatusUpdate ctx syncedKustomization]
                   in case client_Status_Update rt ctx syncedKustomization w3 of
                        (Some err, w4) \<Rightarrow>
                          ((\<lparr>Requeue = True, RequeueAfter = 0\<rparr>, Some err),
                           before @ [LogError err ''unable to update Kustomization status''], w4)
                      | (None, w4) \<Rightarrow>
                          ((\<lparr>Requeue = False,
                             RequeueAfter = Interval (Spec kustomization)\<rparr>, None),
                           before @ [LogInfo ''Kustomization sync finished''], w4))))"

definition Reconcile ::
  "api \<Rightarrow> 'w runtime \<Rightarrow> NamespacedName \<Rightarrow> 'w
   \<Rightarrow> (Result \<times> error option) \<times> event list \<times> 'w" where
  "Reconcile api rt req w =
     (let ctx = WithTimeout Background (15 * Second);
          (result, events, w') = Reconcile_body api rt ctx req w
      in (result, events @ [Cancel ctx], w'))"

subsection \<open>The command lines, named\<close>

text \<open>
  Shorthand for the three command lines \<open>sync\<close> builds with \<open>fmt.Sprintf\<close>, as they
  stand in \<open>sync_workspace\<close>; used to state the path a sync attempt takes.
\<close>

abbreviation sh :: "string \<Rightarrow> string list" where
  "sh line \<equiv> [''/bin/sh'', ''-c'', line]"

abbreviation fetch_line :: "string \<Rightarrow> string \<Rightarrow> string" where
  "fetch_line tmpDir url \<equiv>
     ''cd '' @ tmpDir @ '' && curl -sL '' @ url @ '' | tar -xz --strip-components=1 -C .''"

abbreviation build_line :: "string \<Rightarrow> Kustomization \<Rightarrow> string" where
  "build_line tmpDir kustomization \<equiv>
     ''cd '' @ tmpDir @ '' && kustomize build '' @ Path (Spec kustomization) @ '' > ''
       @ Name kustomization @ ''.yaml''"

abbreviation apply_line :: "string \<Rightarrow> Kustomization \<Rightarrow> string" where
  "apply_line tmpDir kustomization \<equiv>
     (if Prune (Spec kustomization) \<noteq> []
      then ''cd '' @ tmpDir @ '' && kubectl apply -f '' @ Name kustomization
             @ ''.yaml --prune -l '' @ Prune (Spec kustomization)
      else ''cd '' @ tmpDir @ '' && kubectl apply -f '' @ Name kustomization @ ''.yaml'')"

abbreviation attempt_context :: Context where
  "attempt_context \<equiv> WithTimeout Background (15 * Second)"

section \<open>An example environment\<close>

text \<open>
  Concrete objects and a concrete world to run the reconciler in: the world counts the
  commands executed and keeps the list of temporary directories that exist; a script fixes
  the answer of every operation, the commands' answers in the order they are run.
\<close>

definition example_key :: string where
  "example_key = ''kustomize.fluxcd.io/syncAt''"

definition example_meta :: "64 word \<Rightarrow> string option \<Rightarrow> ObjectMeta" where
  "example_meta generation syncAt =
     \<lparr>Name = ''app'', Namespace = ''default'', Generation = generation,
      Annotations = (\<lambda>key. if key = example_key then syncAt else None)\<rparr>"

definition example_api :: api where
  "example_api =
     \<lparr>ArtifactFailedReason = ''ArtifactFailed'', BuildFailedReason = ''BuildFailed'',
      ApplyFailedReason = ''ApplyFailed'', ApplySucceedReason = ''ApplySucceed'',
      StorageOperationFailedReason = ''StorageOperationFailed''\<rparr>"

definition example_kustomization :: "string \<Rightarrow> Kustomization" where
  "example_kustomization prune =
     \<lparr>Name = ''app'', Namespace = ''default'', Generation = 1, Annotations = Map.empty,
      Spec = \<lparr>GitRepositoryRef_Name = ''repo'', Path = ''./deploy'', Prune = prune,
               Interval = 300 * Second\<rparr>,
      Conditions = []\<rparr>"

definition example_repository :: "Artifact option \<Rightarrow> GitRepository" where
  "example_repository artifact =
     \<lparr>Name = ''repo'', Namespace = ''default'', Generation = 1, Annotations = Map.empty,
      Status_Artifact = artifact\<rparr>"

definition example_artifact :: Artifact where
  "example_artifact = \<lparr>URL = ''https://x/artifact.tar.gz''\<rparr>"

record script =
  kustomization_answer :: "error + Kustomization"
  repository_answer :: "error + GitRepository"
  tempdir_answer :: "error + string"
  command_answers :: "(string \<times> error option) list"
  update_answer :: "error option"

record world =
  executed :: nat
  directories :: "string list"

definition scripted :: "script \<Rightarrow> world runtime" where
  "scripted s =
     \<lparr>client_Get_Kustomization = (\<lambda>ctx name w. (kustomization_answer s, w)),
      client_Get_GitRepository = (\<lambda>ctx name w. (repository_answer s, w)),
      client_Status_Update = (\<lambda>ctx k w. (update_answer s, w)),
      ioutil_TempDir =
        (\<lambda>dir pattern w.
           case tempdir_answer s of
             Inl e \<Rightarrow> (Inl e, w)
           | Inr d \<Rightarrow> (Inr d, w\<lparr>directories := d # directories w\<rparr>)),
      os_RemoveAll = (\<lambda>path w. (None, w\<lparr>directories := removeAll path (directories w)\<rparr>)),
      exec_CombinedOutput =
        (\<lambda>ctx argv w.
           (if executed w < length (command_answers s) then command_answers s ! executed w
            else ([], None),
            w\<lparr>executed := Suc (executed w)\<rparr>))\<rparr>"

definition example_script :: "string \<Rightarrow> (string \<times> error option) list \<Rightarrow> script" where
  "example_script prune answers =
     \<lparr>kustomization_answer = Inr (example_kustomization prune),
      repository_answer = Inr (example_repository (Some example_artifact)),
      tempdir_answer = Inr ''/tmp/repo123'',
      command_answers = answers,
      update_answer = None\<rparr>"

definition start :: world where
  "start = \<lparr>executed = 0, directories = []\<rparr>"

definition after :: "nat \<Rightarrow> world" where
  "after n = \<lparr>executed = n, directories = [''/tmp/repo123'']\<rparr>"

definition exit_status_1 :: "error option" where
  "exit_status_1 = Some (Errorf ''exit status 1'')"

definition healthy :: "string \<Rightarrow> world runtime" where
  "healthy prune =
     scripted (example_script prune
       [([], None), ([], None), (''deployment.apps/app configured'', None)])"

definition no_space :: "world runtime" where
  "no_space =
     scripted ((example_script [] [])
       \<lparr>tempdir_answer := Inl (Errorf ''mkdir /tmp/repo123: no space left on device'')\<rparr>)"

definition fetch_fails :: "world runtime" where
  "fetch_fails =
     scripted (example_script [] [(''tar: short read'', Some (Errorf ''exit status 2''))])"

definition build_fails :: "world runtime" where
  "build_fails =
     scripted (example_script []
       [([], None), (''Error: no kustomization file'', exit_status_1)])"

definition apply_fails :: "world runtime" where
  "apply_fails =
     scripted (example_script []
       [([], None), ([], None), (''error: connection refused'', exit_status_1)])"

definition repository_missing :: "world runtime" where
  "repository_missing =
     scripted ((example_script [] [])
       \<lparr>repository_answer := Inl (NotFound ''gitrepositories repo not found'')\<rparr>)"

section \<open>What the world receives\<close>

text \<open>
  The events \<open>sync\<close> and \<open>Reconcile\<close> list are written next to the calls they stand for.
  To speak of the calls themselves, \<open>observed rt\<close> is the runtime \<open>rt\<close> with a recorder in
  front of it: every operation notes the arguments it was called with, context included, at
  the end of a log kept beside the world, and then does what \<open>rt\<close> does. What the log holds
  after a run is what the runtime was really called with, in order. Printing, logging and
  the cancellation of the context are not operations of the runtime.
\<close>

definition observed :: "'w runtime \<Rightarrow> ('w \<times> event list) runtime" where
  "observed rt =
     \<lparr>client_Get_Kustomization =
        (\<lambda>ctx name (w, log).
           case client_Get_Kustomization rt ctx name w of
             (answer, w') \<Rightarrow> (answer, (w', log @ [GetKustomization ctx name]))),
      client_Get_GitRepository =
        (\<lambda>ctx name (w, log).
           case client_Get_GitRepository rt ctx name w of
             (answer, w') \<Rightarrow> (answer, (w', log @ [GetGitRepository ctx name]))),
      client_Status_Update =
        (\<lambda>ctx k (w, log).
           case client_Status_Update rt ctx k w of
             (answer, w') \<Rightarrow> (answer, (w', log @ [StatusUpdate ctx k]))),
      ioutil_TempDir =
        (\<lambda>dir pattern (w, log).
           case ioutil_TempDir rt dir pattern w of
             (answer, w') \<Rightarrow> (answer, (w', log @ [TempDir dir pattern]))),
      os_RemoveAll =
        (\<lambda>path (w, log).
           case os_RemoveAll rt path w of
             (answer, w') \<Rightarrow> (answer, (w', log @ [RemoveAll path]))),
      exec_CombinedOutput =
        (\<lambda>ctx argv (w, log).
           case exec_CombinedOutput rt ctx argv w of
             (answer, w') \<Rightarrow> (answer, (w', log @ [Command ctx argv])))\<rparr>"

definition received :: "'a \<times> event list \<times> 'w \<times> event list \<Rightarrow> event list" where
  "received run = snd (snd (snd run))"

fun is_operation :: "event \<Rightarrow> bool" where
  "is_operation (Println s) = False"
| "is_operation (LogError err msg) = False"
| "is_operation (LogInfo msg) = False"
| "is_operation (Cancel ctx) = False"
| "is_operation e = True"

subsection \<open>Deadlines\<close>


subsection \<open>The shell's fields\<close>



subsection \<open>Two more example worlds\<close>

text \<open>
  \<open>removal_fails\<close> is the healthy example world in which \<open>os.RemoveAll\<close> fails and
  removes nothing.
\<close>

definition removal_fails :: "world runtime" where
  "removal_fails =
     (healthy [])
       \<lparr>os_RemoveAll :=
          (\<lambda>path w. (Some (Errorf ''unlinkat /tmp/repo123: permission denied''), w))\<rparr>"



section \<open>Properties of the change predicate\<close>

lemma Update_both:
  "MetaOld e = Some old \<Longrightarrow> MetaNew e = Some new \<Longrightarrow>
   Update key e \<longleftrightarrow>
     Generation new \<noteq> Generation old
     \<or> (\<exists>val. Annotations new key = Some val \<and> Annotations old key \<noteq> Some val)"
  by (auto simp: Update_def split: option.splits)

text \<open>
  C8. An update event that carries metadata on both sides and whose old and new generations
  differ passes the predicate, whatever the sync-at annotation is on either side.
\<close>

theorem Update_generation_changed:
  "MetaOld e = Some old \<Longrightarrow> MetaNew e = Some new \<Longrightarrow>
   Generation new \<noteq> Generation old \<Longrightarrow> Update key e = True"
  by (simp add: Update_both)

theorem Update_generation_changed_witness:
  "Generation (example_meta 2 (Some ''t0'')) \<noteq> Generation (example_meta 1 (Some ''t0''))
   \<and> Update example_key
        \<lparr>MetaOld = Some (example_meta 1 (Some ''t0'')),
         MetaNew = Some (example_meta 2 (Some ''t0''))\<rparr> = True
   \<and> Generation (example_meta 2 None) \<noteq> Generation (example_meta 1 (Some ''t0''))
   \<and> Update example_key
        \<lparr>MetaOld = Some (example_meta 1 (Some ''t0'')),
         MetaNew = Some (example_meta 2 None)\<rparr> = True"
  using
    Update_generation_changed
      [of "\<lparr>MetaOld = Some (example_meta 1 (Some ''t0'')),
            MetaNew = Some (example_meta 2 (Some ''t0''))\<rparr>"
          "example_meta 1 (Some ''t0'')" "example_meta 2 (Some ''t0'')" example_key]
    Update_generation_changed
      [of "\<lparr>MetaOld = Some (example_meta 1 (Some ''t0'')),
            MetaNew = Some (example_meta 2 None)\<rparr>"
          "example_meta 1 (Some ''t0'')" "example_meta 2 None" example_key]
  by (simp add: example_meta_def)

text \<open>
  C9. The predicate rejects every update event that lacks metadata on the old or on the new
  side, and every event with metadata on both sides whose generations are equal and whose
  sync-at annotation is absent on the new object or has the same value as on the old object.
\<close>

theorem Update_suppressed:
  "(MetaOld e = None \<or> MetaNew e = None)
   \<or> (MetaOld e = Some old \<and> MetaNew e = Some new \<and> Generation new = Generation old
      \<and> (Annotations new key = None \<or> Annotations new key = Annotations old key))
   \<Longrightarrow> Update key e = False"
  by (auto simp: Update_def split: option.splits)

theorem Update_suppressed_witness:
  "Update example_key \<lparr>MetaOld = None, MetaNew = Some (example_meta 2 (Some ''t1''))\<rparr> = False
   \<and> Update example_key \<lparr>MetaOld = Some (example_meta 1 None), MetaNew = None\<rparr> = False
   \<and> Annotations (example_meta 2 (Some ''t0'')) example_key = Some ''t0''
   \<and> Update example_key
        \<lparr>MetaOld = Some (example_meta 2 (Some ''t0'')),
         MetaNew = Some (example_meta 2 (Some ''t0''))\<rparr> = False
   \<and> Annotations (example_meta 2 None) example_key = None
   \<and> Update example_key
        \<lparr>MetaOld = Some (example_meta 2 (Some ''t0'')),
         MetaNew = Some (example_meta 2 None)\<rparr> = False"
  using
    Update_suppressed
      [of "\<lparr>MetaOld = None, MetaNew = Some (example_meta 2 (Some ''t1''))\<rparr>"
          "example_meta 2 None" "example_meta 2 None" example_key]
    Update_suppressed
      [of "\<lparr>MetaOld = Some (example_meta 1 None), MetaNew = None\<rparr>"
          "example_meta 2 None" "example_meta 2 None" example_key]
    Update_suppressed
      [of "\<lparr>MetaOld = Some (example_meta 2 (Some ''t0'')),
            MetaNew = Some (example_meta 2 (Some ''t0''))\<rparr>"
          "example_meta 2 (Some ''t0'')" "example_meta 2 (Some ''t0'')" example_key]
    Update_suppressed
      [of "\<lparr>MetaOld = Some (example_meta 2 (Some ''t0'')),
            MetaNew = Some (example_meta 2 None)\<rparr>"
          "example_meta 2 (Some ''t0'')" "example_meta 2 None" example_key]
  by (simp add: example_meta_def example_key_def)

section \<open>The paths of a sync attempt\<close>

text \<open>
  One lemma for each way \<open>sync\<close> returns: what it returns, the operations it performed and
  the world it leaves, given the answers it got.
\<close>

lemmas example_defs =
  example_api_def example_kustomization_def example_repository_def example_artifact_def
  scripted_def example_script_def start_def after_def exit_status_1_def
  healthy_def no_space_def fetch_fails_def build_fails_def apply_fails_def repository_missing_def

lemma path_artifact_missing:
  "Status_Artifact repo = None \<or> (\<exists>a. Status_Artifact repo = Some a \<and> URL a = []) \<Longrightarrow>
   sync api rt ctx k repo w =
     ((KustomizationNotReady k (ArtifactFailedReason api) (''artifact not found in '' @ Name repo),
       Some (Errorf (''artifact not found in '' @ Name repo))), [], w)"
  by (auto simp: sync_def artifact_not_found_def)

lemma path_tempdir_failed:
  "Status_Artifact repo = Some a \<Longrightarrow> URL a \<noteq> [] \<Longrightarrow>
   ioutil_TempDir rt [] (Name repo) w = (Inl e, w1) \<Longrightarrow>
   sync api rt ctx k repo w =
     ((KustomizationNotReady k (StorageOperationFailedReason api) (''tmp dir error: '' @ Error e),
       Some (Errorf (''tmp dir error: '' @ Error e))), [TempDir [] (Name repo)], w1)"
  by (simp add: sync_def)

lemma path_in_workspace:
  "Status_Artifact repo = Some a \<Longrightarrow> URL a \<noteq> [] \<Longrightarrow>
   ioutil_TempDir rt [] (Name repo) w = (Inr d, w1) \<Longrightarrow>
   sync api rt ctx k repo w =
     (fst (sync_workspace api rt ctx k d (URL a) w1),
      TempDir [] (Name repo) # fst (snd (sync_workspace api rt ctx k d (URL a) w1))
        @ [RemoveAll d],
      snd (os_RemoveAll rt d (snd (snd (sync_workspace api rt ctx k d (URL a) w1)))))"
  by (simp add: sync_def split: prod.splits)

lemma workspace_fetch_failed:
  "exec_CombinedOutput rt ctx (sh (fetch_line d url)) w = ((out, Some e), w1) \<Longrightarrow>
   sync_workspace api rt ctx k d url w =
     ((KustomizationNotReady k (ArtifactFailedReason api)
         (''artifact acquisition failed: '' @ Error e),
       Some (Errorf (''artifact download `'' @ url @ ''` error: '' @ out))),
      [Command ctx (sh (fetch_line d url))], w1)"
  by (simp add: sync_workspace_def)

lemma workspace_build_failed:
  "exec_CombinedOutput rt ctx (sh (fetch_line d url)) w = ((out, None), w1) \<Longrightarrow>
   exec_CombinedOutput rt ctx (sh (build_line d k)) w1 = ((out2, Some e), w2) \<Longrightarrow>
   sync_workspace api rt ctx k d url w =
     ((KustomizationNotReady k (BuildFailedReason api) (''kustomize build error: '' @ Error e),
       Some (Errorf (''kustomize build error: '' @ out2))),
      [Command ctx (sh (fetch_line d url)), Command ctx (sh (build_line d k)), Println out2],
      w2)"
  by (simp add: sync_workspace_def)

lemma workspace_apply_failed:
  "exec_CombinedOutput rt ctx (sh (fetch_line d url)) w = ((out, None), w1) \<Longrightarrow>
   exec_CombinedOutput rt ctx (sh (build_line d k)) w1 = ((out2, None), w2) \<Longrightarrow>
   exec_CombinedOutput rt ctx (sh (apply_line d k)) w2 = ((out3, Some e), w3) \<Longrightarrow>
   sync_workspace api rt ctx k d url w =
     ((KustomizationNotReady k (ApplyFailedReason api) (''kubectl apply error: '' @ Error e),
       Some (Errorf (''kubectl apply: '' @ out3))),
      [Command ctx (sh (fetch_line d url)), Command ctx (sh (build_line d k)),
       Command ctx (sh (apply_line d k))],
      w3)"
  by (simp add: sync_workspace_def)

lemma workspace_applied:
  "exec_CombinedOutput rt ctx (sh (fetch_line d url)) w = ((out, None), w1) \<Longrightarrow>
   exec_CombinedOutput rt ctx (sh (build_line d k)) w1 = ((out2, None), w2) \<Longrightarrow>
   exec_CombinedOutput rt ctx (sh (apply_line d k)) w2 = ((out3, None), w3) \<Longrightarrow>
   sync_workspace api rt ctx k d url w =
     ((KustomizationReady k (ApplySucceedReason api) ''kustomization was successfully applied'',
       None),
      [Command ctx (sh (fetch_line d url)), Command ctx (sh (build_line d k)),
       Command ctx (sh (apply_line d k)), Println out3],
      w3)"
  by (simp add: sync_workspace_def)

lemma Conditions_NotReady:
  "Conditions (KustomizationNotReady k reason message) =
     [\<lparr>Status = NotReady, Reason = reason, Message = message\<rparr>]"
  by (simp add: KustomizationNotReady_def)

lemma Conditions_Ready:
  "Conditions (KustomizationReady k reason message) =
     [\<lparr>Status = Ready, Reason = reason, Message = message\<rparr>]"
  by (simp add: KustomizationReady_def)




section \<open>The calls behind the events\<close>

text \<open>
  Run against an observed runtime, \<open>sync\<close> and \<open>Reconcile\<close> return what they return
  against the runtime itself, and the runtime has then received exactly the operations among
  their events, in that order: each event of an operation has its call behind it, and no
  call goes unlisted.
\<close>

lemma observed_command:
  "exec_CombinedOutput rt ctx argv w = (answer, w') \<Longrightarrow>
   exec_CombinedOutput (observed rt) ctx argv (w, log) = (answer, (w', log @ [Command ctx argv]))"
  by (simp add: observed_def)

lemma observed_workspace:
  "sync_workspace api (observed rt) ctx k d url (w, log) =
     (fst (sync_workspace api rt ctx k d url w),
      fst (snd (sync_workspace api rt ctx k d url w)),
      snd (snd (sync_workspace api rt ctx k d url w)),
      log @ filter is_operation (fst (snd (sync_workspace api rt ctx k d url w))))"
proof -
  obtain out1 err1 w1 where
    fetch: "exec_CombinedOutput rt ctx (sh (fetch_line d url)) w = ((out1, err1), w1)"
    by (metis surj_pair)
  note fetch' = observed_command [OF fetch, of log]
  show ?thesis
  proof (cases err1)
    case (Some e)
    with fetch fetch' show ?thesis
      by (simp add: workspace_fetch_failed)
  next
    case None
    note fetched = fetch [unfolded None] fetch' [unfolded None]
    obtain out2 err2 w2 where
      build: "exec_CombinedOutput rt ctx (sh (build_line d k)) w1 = ((out2, err2), w2)"
      by (metis surj_pair)
    note build' = observed_command [OF build, of "log @ [Command ctx (sh (fetch_line d url))]"]
    show ?thesis
    proof (cases err2)
      case (Some e)
      from fetched build [unfolded Some] build' [unfolded Some] show ?thesis
        by (simp add: workspace_build_failed)
    next
      case None
      note built = build [unfolded None] build' [unfolded None]
      obtain out3 err3 w3 where
        apply_step: "exec_CombinedOutput rt ctx (sh (apply_line d k)) w2 = ((out3, err3), w3)"
        by (metis surj_pair)
      note apply_step' = observed_command
        [OF apply_step,
         of "(log @ [Command ctx (sh (fetch_line d url))]) @ [Command ctx (sh (build_line d k))]"]
      show ?thesis
      proof (cases err3)
        case (Some e)
        from fetched built apply_step [unfolded Some] apply_step' [unfolded Some]
        show ?thesis
          by (simp add: workspace_apply_failed)
      next
        case None
        from fetched built apply_step [unfolded None] apply_step' [unfolded None]
        show ?thesis
          by (simp add: workspace_applied)
      qed
    qed
  qed
qed

lemma observed_sync:
  "sync api (observed rt) ctx k repo (w, log) =
     (fst (sync api rt ctx k repo w),
      fst (snd (sync api rt ctx k repo w)),
      snd (snd (sync api rt ctx k repo w)),
      log @ filter is_operation (fst (snd (sync api rt ctx k repo w))))"
proof (cases "Status_Artifact repo")
  case None
  then show ?thesis
    by (simp add: sync_def artifact_not_found_def)
next
  case (Some a)
  show ?thesis
  proof (cases "URL a = []")
    case True
    with Some show ?thesis
      by (simp add: sync_def artifact_not_found_def)
  next
    case False
    obtain answer w1 where tmp: "ioutil_TempDir rt [] (Name repo) w = (answer, w1)"
      by (metis surj_pair)
    then have tmp': "ioutil_TempDir (observed rt) [] (Name repo) (w, log) =
        (answer, (w1, log @ [TempDir [] (Name repo)]))"
      by (simp add: observed_def)
    show ?thesis
    proof (cases answer)
      case (Inl e)
      with Some False tmp tmp' show ?thesis
        by (simp add: sync_def)
    next
      case (Inr dir)
      have remove: "os_RemoveAll (observed rt) dir (w', log') =
          (fst (os_RemoveAll rt dir w'), (snd (os_RemoveAll rt dir w'), log' @ [RemoveAll dir]))"
        for w' log'
        by (simp add: observed_def split: prod.splits)
      from Some False tmp tmp' Inr show ?thesis
        by (simp add: sync_def observed_workspace remove split: prod.splits)
    qed
  qed
qed


section \<open>Properties of a sync attempt\<close>

text \<open>
  C3. A sync attempt whose source object has no artifact, or an artifact with the empty URL,
  fails with the artifact-missing outcome: the status condition is NotReady with the
  artifact-failure reason, an error is returned, and the attempt has performed no operation
  at all when it returns; in particular no temporary directory was created, and the world is
  as it was.
\<close>

theorem sync_artifact_missing_no_workspace:
  "Status_Artifact repo = None \<or> (\<exists>a. Status_Artifact repo = Some a \<and> URL a = []) \<Longrightarrow>
   Conditions (fst (fst (sync api rt ctx k repo w))) =
     [\<lparr>Status = NotReady, Reason = ArtifactFailedReason api,
       Message = ''artifact not found in '' @ Name repo\<rparr>]
   \<and> snd (fst (sync api rt ctx k repo w)) = Some (Errorf (''artifact not found in '' @ Name repo))
   \<and> fst (snd (sync api rt ctx k repo w)) = []
   \<and> snd (snd (sync api rt ctx k repo w)) = w"
  by (simp add: path_artifact_missing Conditions_NotReady)

theorem sync_artifact_missing_no_workspace_witness:
  "Status_Artifact (example_repository None) = None
   \<and> Conditions (fst (fst (sync example_api (scripted (example_script [] [])) Background
        (example_kustomization []) (example_repository None) start))) =
        [\<lparr>Status = NotReady, Reason = ''ArtifactFailed'',
          Message = ''artifact not found in repo''\<rparr>]
   \<and> fst (snd (sync example_api (scripted (example_script [] [])) Background
        (example_kustomization []) (example_repository None) start)) = []
   \<and> Status_Artifact (example_repository (Some \<lparr>URL = []\<rparr>)) = Some \<lparr>URL = []\<rparr>
   \<and> Conditions (fst (fst (sync example_api (scripted (example_script [] [])) Background
        (example_kustomization []) (example_repository (Some \<lparr>URL = []\<rparr>)) start))) =
        [\<lparr>Status = NotReady, Reason = ''ArtifactFailed'',
          Message = ''artifact not found in repo''\<rparr>]
   \<and> fst (snd (sync example_api (scripted (example_script [] [])) Background
        (example_kustomization []) (example_repository (Some \<lparr>URL = []\<rparr>)) start)) = []"
  using
    sync_artifact_missing_no_workspace
      [of "example_repository None" example_api "scripted (example_script [] [])" Background
          "example_kustomization []" start]
    sync_artifact_missing_no_workspace
      [of "example_repository (Some \<lparr>URL = []\<rparr>)" example_api
          "scripted (example_script [] [])" Background "example_kustomization []" start]
  by (simp add: example_repository_def example_api_def)

lemma workspace_operations_no_TempDir:
  "filter (\<lambda>e. is_operation e \<and> is_TempDir e)
     (fst (snd (sync_workspace api rt ctx k d url w))) = []"
  by (simp add: sync_workspace_def Let_def split: prod.splits option.splits)

text \<open>
  C4, as the code has it. A sync attempt that has created its temporary directory \<open>d\<close>
  ends, on every path, with a call of \<open>os.RemoveAll d\<close>: it is the last call the world
  receives from the attempt, whatever the commands answered (a command cut short by the
  deadline answers with an error like any other); the attempt creates no other directory;
  and the world the attempt leaves is the one that call leaves. What \<open>os.RemoveAll\<close>
  answers is dropped: the attempt returns what the rest of its body returned. So the
  directory is gone when \<open>os.RemoveAll\<close> removes it, and stays, unreported, when it fails.
\<close>

theorem sync_removes_workspace:
  "Status_Artifact repo = Some a \<Longrightarrow> URL a \<noteq> [] \<Longrightarrow>
   ioutil_TempDir rt [] (Name repo) w = (Inr d, w1) \<Longrightarrow>
   last (received (sync api (observed rt) ctx k repo (w, []))) = RemoveAll d
   \<and> filter is_TempDir (received (sync api (observed rt) ctx k repo (w, []))) =
       [TempDir [] (Name repo)]
   \<and> snd (snd (sync api rt ctx k repo w)) =
       snd (os_RemoveAll rt d (snd (snd (sync_workspace api rt ctx k d (URL a) w1))))
   \<and> fst (sync api rt ctx k repo w) = fst (sync_workspace api rt ctx k d (URL a) w1)"
  by (simp add: received_def observed_sync path_in_workspace workspace_operations_no_TempDir)

theorem sync_removes_workspace_witness:
  "ioutil_TempDir build_fails [] (Name (example_repository (Some example_artifact))) start
     = (Inr ''/tmp/repo123'', after 0)
   \<and> directories (after 0) = [''/tmp/repo123'']
   \<and> last (received (sync example_api (observed build_fails) Background
        (example_kustomization []) (example_repository (Some example_artifact)) (start, [])))
     = RemoveAll ''/tmp/repo123''
   \<and> fst (os_RemoveAll build_fails ''/tmp/repo123'' (after 2)) = None
   \<and> directories (snd (snd (sync example_api build_fails
        Background (example_kustomization []) (example_repository (Some example_artifact)) start)))
     = []"
  using sync_removes_workspace
    [of "example_repository (Some example_artifact)" example_artifact
        build_fails start "''/tmp/repo123''" "after 0" example_api Background "example_kustomization []"]
  by (simp add: example_defs sync_workspace_def)

text \<open>
  In \<open>removal_fails\<close> every command succeeds and \<open>os.RemoveAll\<close> fails: the attempt
  created \<open>/tmp/repo123\<close>, returns Ready and no error, and the directory is still there.
\<close>

theorem sync_workspace_left_counterexample:
  "ioutil_TempDir removal_fails [] (Name (example_repository (Some example_artifact))) start
     = (Inr ''/tmp/repo123'', after 0)
   \<and> Conditions (fst (fst (sync example_api removal_fails Background (example_kustomization [])
        (example_repository (Some example_artifact)) start)))
     = [\<lparr>Status = Ready, Reason = ''ApplySucceed'',
         Message = ''kustomization was successfully applied''\<rparr>]
   \<and> snd (fst (sync example_api removal_fails Background (example_kustomization [])
        (example_repository (Some example_artifact)) start))
     = None
   \<and> last (fst (snd (sync example_api removal_fails Background (example_kustomization [])
        (example_repository (Some example_artifact)) start)))
     = RemoveAll ''/tmp/repo123''
   \<and> directories (snd (snd (sync example_api removal_fails Background (example_kustomization [])
        (example_repository (Some example_artifact)) start)))
     = [''/tmp/repo123'']"
  by (simp add: example_defs removal_fails_def sync_def sync_workspace_def
      KustomizationReady_def)

text \<open>
  C5, as the code has it. When the render step (\<open>kustomize build\<close>) fails, the status
  condition is NotReady with the build-failed reason, and its message is
  \<open>kustomize build error: \<close> followed by the text of the error the command returned (such
  as \<open>exit status 1\<close>). The captured output of the step is not part of the message: it is
  printed, and it is the text of the error that \<open>sync\<close> returns.
\<close>

theorem sync_build_failed_condition:
  "Status_Artifact repo = Some a \<Longrightarrow> URL a \<noteq> [] \<Longrightarrow>
   ioutil_TempDir rt [] (Name repo) w = (Inr d, w1) \<Longrightarrow>
   exec_CombinedOutput rt ctx (sh (fetch_line d (URL a))) w1 = ((out1, None), w2) \<Longrightarrow>
   exec_CombinedOutput rt ctx (sh (build_line d k)) w2 = ((out2, Some e), w3) \<Longrightarrow>
   Conditions (fst (fst (sync api rt ctx k repo w))) =
     [\<lparr>Status = NotReady, Reason = BuildFailedReason api,
       Message = ''kustomize build error: '' @ Error e\<rparr>]
   \<and> snd (fst (sync api rt ctx k repo w)) = Some (Errorf (''kustomize build error: '' @ out2))
   \<and> Println out2 \<in> set (fst (snd (sync api rt ctx k repo w)))"
  by (simp add: path_in_workspace workspace_build_failed Conditions_NotReady)

theorem sync_build_failed_condition_witness:
  "ioutil_TempDir build_fails [] (Name (example_repository (Some example_artifact))) start
     = (Inr ''/tmp/repo123'', after 0)
   \<and> exec_CombinedOutput build_fails Background
        (sh ''cd /tmp/repo123 && curl -sL https://x/artifact.tar.gz | tar -xz --strip-components=1 -C .'')
        (after 0)
     = (([], None), after 1)
   \<and> exec_CombinedOutput build_fails Background
        (sh ''cd /tmp/repo123 && kustomize build ./deploy > app.yaml'') (after 1)
     = ((''Error: no kustomization file'', Some (Errorf ''exit status 1'')), after 2)
   \<and> Conditions (fst (fst (sync example_api build_fails Background (example_kustomization [])
        (example_repository (Some example_artifact)) start)))
     = [\<lparr>Status = NotReady, Reason = ''BuildFailed'',
         Message = ''kustomize build error: exit status 1''\<rparr>]
   \<and> snd (fst (sync example_api build_fails Background (example_kustomization [])
        (example_repository (Some example_artifact)) start))
     = Some (Errorf ''kustomize build error: Error: no kustomization file'')"
  using sync_build_failed_condition
    [of "example_repository (Some example_artifact)" example_artifact build_fails start
        "''/tmp/repo123''" "after 0" Background "[]" "after 1" "example_kustomization []"
        "''Error: no kustomization file''" "Errorf ''exit status 1''" "after 2" example_api]
  by (simp add: example_defs)

text \<open>
  The render step prints \<open>Error: no kustomization file\<close> and exits with status 1: the
  message of the resulting condition is \<open>kustomize build error: exit status 1\<close>, in which
  the captured output does not occur.
\<close>

theorem sync_build_failed_message_counterexample:
  "Conditions (fst (fst (sync example_api build_fails Background (example_kustomization [])
        (example_repository (Some example_artifact)) start)))
     = [\<lparr>Status = NotReady, Reason = ''BuildFailed'',
         Message = ''kustomize build error: exit status 1''\<rparr>]
   \<and> fst (fst (exec_CombinedOutput build_fails Background
        (sh ''cd /tmp/repo123 && kustomize build ./deploy > app.yaml'') (after 1)))
     = ''Error: no kustomization file''
   \<and> \<not> sublist ''Error: no kustomization file'' ''kustomize build error: exit status 1''"
  by (simp add: example_defs sync_def sync_workspace_def KustomizationNotReady_def
      sublist_Cons_right)




text \<open>
  C1, as the code has it. The status condition of a sync attempt is fixed by how far the
  attempt got. A successful attempt yields Ready with \<open>ApplySucceedReason\<close> and the
  message \<open>kustomization was successfully applied\<close>. A failed attempt yields NotReady with
  the reason of its stage: \<open>ArtifactFailedReason\<close> when the artifact is missing,
  \<open>StorageOperationFailedReason\<close> when the temporary directory cannot be created,
  \<open>ArtifactFailedReason\<close> again when the download fails, \<open>BuildFailedReason\<close> when the
  render step fails and \<open>ApplyFailedReason\<close> when the apply step fails. A missing artifact
  and a failed download thus carry the same reason.
\<close>

theorem sync_condition_by_stage:
  "(Status_Artifact repo = None \<or> (\<exists>a. Status_Artifact repo = Some a \<and> URL a = []) \<longrightarrow>
      Conditions (fst (fst (sync api rt ctx k repo w))) =
        [\<lparr>Status = NotReady, Reason = ArtifactFailedReason api,
          Message = ''artifact not found in '' @ Name repo\<rparr>])
   \<and> (Status_Artifact repo = Some a \<and> URL a \<noteq> []
      \<and> ioutil_TempDir rt [] (Name repo) w = (Inl e, w0) \<longrightarrow>
      Conditions (fst (fst (sync api rt ctx k repo w))) =
        [\<lparr>Status = NotReady, Reason = StorageOperationFailedReason api,
          Message = ''tmp dir error: '' @ Error e\<rparr>])
   \<and> (Status_Artifact repo = Some a \<and> URL a \<noteq> []
      \<and> ioutil_TempDir rt [] (Name repo) w = (Inr d, w1)
      \<and> exec_CombinedOutput rt ctx (sh (fetch_line d (URL a))) w1 = ((out1, Some e1), w2) \<longrightarrow>
      Conditions (fst (fst (sync api rt ctx k repo w))) =
        [\<lparr>Status = NotReady, Reason = ArtifactFailedReason api,
          Message = ''artifact acquisition failed: '' @ Error e1\<rparr>])
   \<and> (Status_Artifact repo = Some a \<and> URL a \<noteq> []
      \<and> ioutil_TempDir rt [] (Name repo) w = (Inr d, w1)
      \<and> exec_CombinedOutput rt ctx (sh (fetch_line d (URL a))) w1 = ((out1, None), w2)
      \<and> exec_CombinedOutput rt ctx (sh (build_line d k)) w2 = ((out2, Some e2), w3) \<longrightarrow>
      Conditions (fst (fst (sync api rt ctx k repo w))) =
        [\<lparr>Status = NotReady, Reason = BuildFailedReason api,
          Message = ''kustomize build error: '' @ Error e2\<rparr>])
   \<and> (Status_Artifact repo = Some a \<and> URL a \<noteq> []
      \<and> ioutil_TempDir rt [] (Name repo) w = (Inr d, w1)
      \<and> exec_CombinedOutput rt ctx (sh (fetch_line d (URL a))) w1 = ((out1, None), w2)
      \<and> exec_CombinedOutput rt ctx (sh (build_line d k)) w2 = ((out2, None), w3)
      \<and> exec_CombinedOutput rt ctx (sh (apply_line d k)) w3 = ((out3, Some e3), w4) \<longrightarrow>
      Conditions (fst (fst (sync api rt ctx k repo w))) =
        [\<lparr>Status = NotReady, Reason = ApplyFailedReason api,
          Message = ''kubectl apply error: '' @ Error e3\<rparr>])
   \<and> (Status_Artifact repo = Some a \<and> URL a \<noteq> []
      \<and> ioutil_TempDir rt [] (Name repo) w = (Inr d, w1)
      \<and> exec_CombinedOutput rt ctx (sh (fetch_line d (URL a))) w1 = ((out1, None), w2)
      \<and> exec_CombinedOutput rt ctx (sh (build_line d k)) w2 = ((out2, None), w3)
      \<and> exec_CombinedOutput rt ctx (sh (apply_line d k)) w3 = ((out3, None), w4) \<longrightarrow>
      Conditions (fst (fst (sync api rt ctx k repo w))) =
        [\<lparr>Status = Ready, Reason = ApplySucceedReason api,
          Message = ''kustomization was successfully applied''\<rparr>]
      \<and> snd (fst (sync api rt ctx k repo w)) = None)"
proof (intro conjI impI)
  assume "Status_Artifact repo = None \<or> (\<exists>a. Status_Artifact repo = Some a \<and> URL a = [])"
  then show "Conditions (fst (fst (sync api rt ctx k repo w))) =
        [\<lparr>Status = NotReady, Reason = ArtifactFailedReason api,
          Message = ''artifact not found in '' @ Name repo\<rparr>]"
    by (simp add: path_artifact_missing Conditions_NotReady)
next
  assume "Status_Artifact repo = Some a \<and> URL a \<noteq> []
      \<and> ioutil_TempDir rt [] (Name repo) w = (Inl e, w0)"
  then show "Conditions (fst (fst (sync api rt ctx k repo w))) =
        [\<lparr>Status = NotReady, Reason = StorageOperationFailedReason api,
          Message = ''tmp dir error: '' @ Error e\<rparr>]"
    by (simp add: path_tempdir_failed Conditions_NotReady)
next
  assume "Status_Artifact repo = Some a \<and> URL a \<noteq> []
      \<and> ioutil_TempDir rt [] (Name repo) w = (Inr d, w1)
      \<and> exec_CombinedOutput rt ctx (sh (fetch_line d (URL a))) w1 = ((out1, Some e1), w2)"
  then show "Conditions (fst (fst (sync api rt ctx k repo w))) =
        [\<lparr>Status = NotReady, Reason = ArtifactFailedReason api,
          Message = ''artifact acquisition failed: '' @ Error e1\<rparr>]"
    by (simp add: path_in_workspace workspace_fetch_failed Conditions_NotReady)
next
  assume "Status_Artifact repo = Some a \<and> URL a \<noteq> []
      \<and> ioutil_TempDir rt [] (Name repo) w = (Inr d, w1)
      \<and> exec_CombinedOutput rt ctx (sh (fetch_line d (URL a))) w1 = ((out1, None), w2)
      \<and> exec_CombinedOutput rt ctx (sh (build_line d k)) w2 = ((out2, Some e2), w3)"
  then show "Conditions (fst (fst (sync api rt ctx k repo w))) =
        [\<lparr>Status = NotReady, Reason = BuildFailedReason api,
          Message = ''kustomize build error: '' @ Error e2\<rparr>]"
    by (simp add: path_in_workspace workspace_build_failed Conditions_NotReady)
next
  assume "Status_Artifact repo = Some a \<and> URL a \<noteq> []
      \<and> ioutil_TempDir rt [] (Name repo) w = (Inr d, w1)
      \<and> exec_CombinedOutput rt ctx (sh (fetch_line d (URL a))) w1 = ((out1, None), w2)
      \<and> exec_CombinedOutput rt ctx (sh (build_line d k)) w2 = ((out2, None), w3)
      \<and> exec_CombinedOutput rt ctx (sh (apply_line d k)) w3 = ((out3, Some e3), w4)"
  then show "Conditions (fst (fst (sync api rt ctx k repo w))) =
        [\<lparr>Status = NotReady, Reason = ApplyFailedReason api,
          Message = ''kubectl apply error: '' @ Error e3\<rparr>]"
    by (simp add: path_in_workspace workspace_apply_failed Conditions_NotReady)
next
  assume ok: "Status_Artifact repo = Some a \<and> URL a \<noteq> []
      \<and> ioutil_TempDir rt [] (Name repo) w = (Inr d, w1)
      \<and> exec_CombinedOutput rt ctx (sh (fetch_line d (URL a))) w1 = ((out1, None), w2)
      \<and> exec_CombinedOutput rt ctx (sh (build_line d k)) w2 = ((out2, None), w3)
      \<and> exec_CombinedOutput rt ctx (sh (apply_line d k)) w3 = ((out3, None), w4)"
  then show "Conditions (fst (fst (sync api rt ctx k repo w))) =
        [\<lparr>Status = Ready, Reason = ApplySucceedReason api,
          Message = ''kustomization was successfully applied''\<rparr>]"
    by (simp add: path_in_workspace workspace_applied Conditions_Ready)
  from ok show "snd (fst (sync api rt ctx k repo w)) = None"
    by (simp add: path_in_workspace workspace_applied)
qed

text \<open>
  One run for each of the six outcomes, in the example environment.
\<close>

theorem sync_condition_by_stage_witness:
  "Conditions (fst (fst (sync example_api (healthy []) Background (example_kustomization [])
        (example_repository None) start)))
     = [\<lparr>Status = NotReady, Reason = ''ArtifactFailed'',
         Message = ''artifact not found in repo''\<rparr>]
   \<and> Conditions (fst (fst (sync example_api no_space Background (example_kustomization [])
        (example_repository (Some example_artifact)) start)))
     = [\<lparr>Status = NotReady, Reason = ''StorageOperationFailed'',
         Message = ''tmp dir error: mkdir /tmp/repo123: no space left on device''\<rparr>]
   \<and> Conditions (fst (fst (sync example_api fetch_fails Background (example_kustomization [])
        (example_repository (Some example_artifact)) start)))
     = [\<lparr>Status = NotReady, Reason = ''ArtifactFailed'',
         Message = ''artifact acquisition failed: exit status 2''\<rparr>]
   \<and> Conditions (fst (fst (sync example_api build_fails Background (example_kustomization [])
        (example_repository (Some example_artifact)) start)))
     = [\<lparr>Status = NotReady, Reason = ''BuildFailed'',
         Message = ''kustomize build error: exit status 1''\<rparr>]
   \<and> Conditions (fst (fst (sync example_api apply_fails Background (example_kustomization [])
        (example_repository (Some example_artifact)) start)))
     = [\<lparr>Status = NotReady, Reason = ''ApplyFailed'',
         Message = ''kubectl apply error: exit status 1''\<rparr>]
   \<and> Conditions (fst (fst (sync example_api (healthy []) Background (example_kustomization [])
        (example_repository (Some example_artifact)) start)))
     = [\<lparr>Status = Ready, Reason = ''ApplySucceed'',
         Message = ''kustomization was successfully applied''\<rparr>]"
proof -
  note stage = sync_condition_by_stage
    [where api = example_api and ctx = Background and k = "example_kustomization []"
       and w = start and a = example_artifact and d = "''/tmp/repo123''" and ?w1.0 = "after 0"]
  have missing: "Conditions (fst (fst (sync example_api (healthy []) Background
        (example_kustomization []) (example_repository None) start)))
     = [\<lparr>Status = NotReady, Reason = ''ArtifactFailed'',
         Message = ''artifact not found in repo''\<rparr>]"
    using stage [where repo = "example_repository None" and rt = "healthy []", THEN conjunct1]
    by (simp add: example_defs)
  note rest = stage [where repo = "example_repository (Some example_artifact)"]
  have tempdir: "Conditions (fst (fst (sync example_api no_space Background
        (example_kustomization []) (example_repository (Some example_artifact)) start)))
     = [\<lparr>Status = NotReady, Reason = ''StorageOperationFailed'',
         Message = ''tmp dir error: mkdir /tmp/repo123: no space left on device''\<rparr>]"
    using rest [where rt = no_space and ?w0.0 = start
        and e = "Errorf ''mkdir /tmp/repo123: no space left on device''",
        THEN conjunct2, THEN conjunct1]
    by (simp add: example_defs)
  have fetch: "Conditions (fst (fst (sync example_api fetch_fails Background
        (example_kustomization []) (example_repository (Some example_artifact)) start)))
     = [\<lparr>Status = NotReady, Reason = ''ArtifactFailed'',
         Message = ''artifact acquisition failed: exit status 2''\<rparr>]"
    using rest [where rt = fetch_fails and ?out1.0 = "''tar: short read''"
        and ?e1.0 = "Errorf ''exit status 2''" and ?w2.0 = "after 1",
        THEN conjunct2, THEN conjunct2, THEN conjunct1]
    by (simp add: example_defs)
  have build: "Conditions (fst (fst (sync example_api build_fails Background
        (example_kustomization []) (example_repository (Some example_artifact)) start)))
     = [\<lparr>Status = NotReady, Reason = ''BuildFailed'',
         Message = ''kustomize build error: exit status 1''\<rparr>]"
    using rest [where rt = build_fails and ?out1.0 = "[]" and ?w2.0 = "after 1"
        and ?out2.0 = "''Error: no kustomization file''"
        and ?e2.0 = "Errorf ''exit status 1''" and ?w3.0 = "after 2",
        THEN conjunct2, THEN conjunct2, THEN conjunct2, THEN conjunct1]
    by (simp add: example_defs)
  have apply_failed: "Conditions (fst (fst (sync example_api apply_fails Background
        (example_kustomization []) (example_repository (Some example_artifact)) start)))
     = [\<lparr>Status = NotReady, Reason = ''ApplyFailed'',
         Message = ''kubectl apply error: exit status 1''\<rparr>]"
    using rest [where rt = apply_fails and ?out1.0 = "[]" and ?w2.0 = "after 1"
        and ?out2.0 = "[]" and ?w3.0 = "after 2"
        and ?out3.0 = "''error: connection refused''"
        and ?e3.0 = "Errorf ''exit status 1''" and ?w4.0 = "after 3",
        THEN conjunct2, THEN conjunct2, THEN conjunct2, THEN conjunct2, THEN conjunct1]
    by (simp add: example_defs)
  have applied: "Conditions (fst (fst (sync example_api (healthy []) Background
        (example_kustomization []) (example_repository (Some example_artifact)) start)))
     = [\<lparr>Status = Ready, Reason = ''ApplySucceed'',
         Message = ''kustomization was successfully applied''\<rparr>]"
    using rest [where rt = "healthy []" and ?out1.0 = "[]" and ?w2.0 = "after 1"
        and ?out2.0 = "[]" and ?w3.0 = "after 2"
        and ?out3.0 = "''deployment.apps/app configured''" and ?w4.0 = "after 3",
        THEN conjunct2, THEN conjunct2, THEN conjunct2, THEN conjunct2, THEN conjunct2]
    by (simp add: example_defs)
  from missing tempdir fetch build apply_failed applied show ?thesis
    by (intro conjI)
qed

text \<open>
  A missing artifact and a failed download are different failures reported under the same
  reason: both conditions below carry \<open>ArtifactFailed\<close>, in the first run because the
  source has no artifact, in the second because the download command exits with status 2.
\<close>

theorem sync_reason_shared_counterexample:
  "Conditions (fst (fst (sync example_api (healthy []) Background (example_kustomization [])
        (example_repository None) start)))
     = [\<lparr>Status = NotReady, Reason = ''ArtifactFailed'',
         Message = ''artifact not found in repo''\<rparr>]
   \<and> fst (snd (sync example_api (healthy []) Background (example_kustomization [])
        (example_repository None) start)) = []
   \<and> Conditions (fst (fst (sync example_api fetch_fails Background (example_kustomization [])
        (example_repository (Some example_artifact)) start)))
     = [\<lparr>Status = NotReady, Reason = ''ArtifactFailed'',
         Message = ''artifact acquisition failed: exit status 2''\<rparr>]
   \<and> commands (fst (snd (sync example_api fetch_fails Background (example_kustomization [])
        (example_repository (Some example_artifact)) start)))
     = [(Background, sh ''cd /tmp/repo123 && curl -sL https://x/artifact.tar.gz | tar -xz --strip-components=1 -C .'')]"
  by (simp add: example_defs sync_def sync_workspace_def artifact_not_found_def
      KustomizationNotReady_def)

section \<open>Properties of \<open>Reconcile\<close>\<close>

lemma Reconcile_loaded:
  "client_Get_Kustomization rt attempt_context req w = (Inr k, w1) \<Longrightarrow>
   client_Get_GitRepository rt attempt_context
     (Namespace k, GitRepositoryRef_Name (Spec k)) w1 = (Inr repo, w2) \<Longrightarrow>
   sync api rt attempt_context k repo w2 = ((synced, err), events, w3) \<Longrightarrow>
   client_Status_Update rt attempt_context synced w3 = (answer, w4) \<Longrightarrow>
   Reconcile api rt req w =
     ((case answer of
         Some e \<Rightarrow> (\<lparr>Requeue = True, RequeueAfter = 0\<rparr>, Some e)
       | None \<Rightarrow> (\<lparr>Requeue = False, RequeueAfter = Interval (Spec k)\<rparr>, None)),
      [GetKustomization attempt_context req,
       GetGitRepository attempt_context (Namespace k, GitRepositoryRef_Name (Spec k))]
      @ events
      @ (case err of Some e \<Rightarrow> [LogError e ''Kustomization sync failed''] | None \<Rightarrow> [])
      @ [StatusUpdate attempt_context synced]
      @ (case answer of
           Some e \<Rightarrow> [LogError e ''unable to update Kustomization status'']
         | None \<Rightarrow> [LogInfo ''Kustomization sync finished''])
      @ [Cancel attempt_context],
      w4)"
  by (simp add: Reconcile_def Reconcile_body_def Let_def split: option.splits)

text \<open>
  C2. When the desired-state object and its source object load and the status write
  succeeds, \<open>Reconcile\<close> returns no error and asks for a requeue after the object's
  \<open>Interval\<close>, whatever the sync attempt returned: nothing is assumed of the sync attempt.
\<close>

theorem Reconcile_requeues_after_Interval:
  "client_Get_Kustomization rt (WithTimeout Background (15 * Second)) req w = (Inr k, w1) \<Longrightarrow>
   client_Get_GitRepository rt (WithTimeout Background (15 * Second))
     (Namespace k, GitRepositoryRef_Name (Spec k)) w1 = (Inr repo, w2) \<Longrightarrow>
   fst (client_Status_Update rt (WithTimeout Background (15 * Second))
          (fst (fst (sync api rt (WithTimeout Background (15 * Second)) k repo w2)))
          (snd (snd (sync api rt (WithTimeout Background (15 * Second)) k repo w2)))) = None \<Longrightarrow>
   fst (Reconcile api rt req w) =
     (\<lparr>Requeue = False, RequeueAfter = Interval (Spec k)\<rparr>, None)"
proof -
  assume loaded: "client_Get_Kustomization rt attempt_context req w = (Inr k, w1)"
    and source: "client_Get_GitRepository rt attempt_context
      (Namespace k, GitRepositoryRef_Name (Spec k)) w1 = (Inr repo, w2)"
    and written: "fst (client_Status_Update rt attempt_context
      (fst (fst (sync api rt attempt_context k repo w2)))
      (snd (snd (sync api rt attempt_context k repo w2)))) = None"
  obtain synced err events w3 where
    attempt: "sync api rt attempt_context k repo w2 = ((synced, err), events, w3)"
    by (metis surj_pair)
  obtain answer w4 where
    update: "client_Status_Update rt attempt_context synced w3 = (answer, w4)"
    by (metis surj_pair)
  from written attempt update have "answer = None"
    by simp
  with Reconcile_loaded [OF loaded source attempt update] show ?thesis
    by simp
qed

theorem Reconcile_requeues_after_Interval_witness:
  "snd (fst (sync example_api build_fails (WithTimeout Background (15 * Second))
        (example_kustomization []) (example_repository (Some example_artifact)) start))
     = Some (Errorf ''kustomize build error: Error: no kustomization file'')
   \<and> fst (Reconcile example_api build_fails (''default'', ''app'') start)
     = (\<lparr>Requeue = False, RequeueAfter = 300000000000\<rparr>, None)
   \<and> snd (fst (sync example_api (healthy []) (WithTimeout Background (15 * Second))
        (example_kustomization []) (example_repository (Some example_artifact)) start))
     = None
   \<and> fst (Reconcile example_api (healthy []) (''default'', ''app'') start)
     = (\<lparr>Requeue = False, RequeueAfter = 300000000000\<rparr>, None)"
  using
    Reconcile_requeues_after_Interval
      [of build_fails "(''default'', ''app'')" start "example_kustomization []" start
          "example_repository (Some example_artifact)" start example_api]
    Reconcile_requeues_after_Interval
      [of "healthy []" "(''default'', ''app'')" start "example_kustomization []" start
          "example_repository (Some example_artifact)" start example_api]
  by (simp add: example_defs Second_def sync_def sync_workspace_def)

text \<open>
  C6. When the desired-state object loads and loading its source object fails,
  \<open>Reconcile\<close> returns that error with \<open>Requeue\<close> set, and it has done nothing but the two
  loads, a log entry and the cancellation of its context: there is no status write among its
  operations, and the world is as the failed load left it.
\<close>

theorem Reconcile_source_load_failed:
  "client_Get_Kustomization rt (WithTimeout Background (15 * Second)) req w = (Inr k, w1) \<Longrightarrow>
   client_Get_GitRepository rt (WithTimeout Background (15 * Second))
     (Namespace k, GitRepositoryRef_Name (Spec k)) w1 = (Inl e, w2) \<Longrightarrow>
   fst (Reconcile api rt req w) = (\<lparr>Requeue = True, RequeueAfter = 0\<rparr>, Some e)
   \<and> fst (snd (Reconcile api rt req w)) =
       [GetKustomization (WithTimeout Background (15 * Second)) req,
        GetGitRepository (WithTimeout Background (15 * Second))
          (Namespace k, GitRepositoryRef_Name (Spec k)),
        LogError e ''GitRepository not found'',
        Cancel (WithTimeout Background (15 * Second))]
   \<and> filter is_StatusUpdate (fst (snd (Reconcile api rt req w))) = []
   \<and> snd (snd (Reconcile api rt req w)) = w2"
  by (simp add: Reconcile_def Reconcile_body_def Let_def)

theorem Reconcile_source_load_failed_witness:
  "client_Get_Kustomization repository_missing (WithTimeout Background (15 * Second))
       (''default'', ''app'') start
     = (Inr (example_kustomization []), start)
   \<and> client_Get_GitRepository repository_missing (WithTimeout Background (15 * Second))
       (''default'', ''repo'') start
     = (Inl (NotFound ''gitrepositories repo not found''), start)
   \<and> fst (Reconcile example_api repository_missing (''default'', ''app'') start)
     = (\<lparr>Requeue = True, RequeueAfter = 0\<rparr>, Some (NotFound ''gitrepositories repo not found''))
   \<and> filter is_StatusUpdate
        (fst (snd (Reconcile example_api repository_missing (''default'', ''app'') start))) = []
   \<and> snd (snd (Reconcile example_api repository_missing (''default'', ''app'') start)) = start"
  using Reconcile_source_load_failed
    [of repository_missing "(''default'', ''app'')" start "example_kustomization []" start
        "NotFound ''gitrepositories repo not found''" start example_api]
  by (simp add: example_defs)




end
